theory Spec2Isabelle
  imports Main
begin

section \<open>JavaScript string primitives used by the client\<close>

text \<open>
  A JavaScript string is modelled as a \<^typ>\<open>string\<close>. The only separators and literals the
  client compares against (\<open>/\<close>, \<open>chat\<close>, \<open>.pdf\<close>, \<open>/chat/\<close>) are ASCII, so the
  operations below act the same on bytes as they do on UTF-16 code units.
\<close>

text \<open>
  \<open>s.split('/')\<close>: cuts at every separator and keeps empty segments, so a string with
  \<open>n\<close> separators yields \<open>n + 1\<close> segments and the empty string yields one empty segment.
\<close>

fun split :: "char \<Rightarrow> string \<Rightarrow> string list" where
  "split sep [] = [[]]"
| "split sep (c # cs) =
     (if c = sep then [] # split sep cs
      else (case split sep cs of
              [] \<Rightarrow> [[c]]
            | seg # segs \<Rightarrow> (c # seg) # segs))"

text \<open>\<open>s.startsWith(p)\<close>.\<close>

definition startsWith :: "string \<Rightarrow> string \<Rightarrow> bool" where
  "startsWith s p = (take (length p) s = p)"

text \<open>
  \<open>s.replace(pat, rep)\<close> with a string pattern: only the first (leftmost) occurrence of
  \<open>pat\<close> is replaced; a string without the pattern is returned unchanged.
\<close>

fun replace :: "string \<Rightarrow> string \<Rightarrow> string \<Rightarrow> string" where
  "replace pat rep [] = (if pat = [] then rep else [])"
| "replace pat rep (c # cs) =
     (if startsWith (c # cs) pat then rep @ drop (length pat) (c # cs)
      else c # replace pat rep cs)"

section \<open>Session identity: \<open>getChatParams\<close> of the chat hook\<close>

record chat_params =
  user_hash :: string
  project_id :: string

text \<open>
  \<^verbatim>\<open>
  const pathParts = pathname.split('/');
  if (pathParts.length >= 4 && pathParts[1] === 'chat') {
    return { user_hash: pathParts[2], project_id: pathParts[3] };
  }
  return null;
  \<close>
  The index reads are guarded by the length test, so they are always in range.
\<close>

definition getChatParams :: "string \<Rightarrow> chat_params option" where
  "getChatParams pathname =
     (let pathParts = split CHR ''/'' pathname
      in if length pathParts \<ge> 4 \<and> pathParts ! 1 = ''chat''
         then Some \<lparr>user_hash = pathParts ! 2, project_id = pathParts ! 3\<rparr>
         else None)"

text \<open>
  The landing page builds the shareable path from the JSON body of the creation endpoint:
  \<^verbatim>\<open>const chatUrl = `/chat/${result.user_hash}/${result.project_id}`;\<close>
\<close>

record create_result =
  res_user_hash :: string
  res_project_id :: string

definition chatUrl :: "create_result \<Rightarrow> string" where
  "chatUrl result = ''/chat/'' @ res_user_hash result @ ''/'' @ res_project_id result"

text \<open>
  Template literals and \<open>Date.now()\<close>: a non-negative integer printed in decimal, as
  \<open>`human-${Date.now()}`\<close> does.
\<close>

fun toString :: "nat \<Rightarrow> string" where
  "toString n =
     (if n < 10 then [char_of (48 + n)]
      else toString (n div 10) @ [char_of (48 + n mod 10)])"

declare toString.simps [simp del]

text \<open>
  Truthiness of a value of type \<open>string | null | undefined\<close>: \<open>null\<close>, \<open>undefined\<close>
  and the empty string are falsy, every other string is truthy.
\<close>

definition truthy :: "string option \<Rightarrow> bool" where
  "truthy v = (case v of None \<Rightarrow> False | Some s \<Rightarrow> s \<noteq> [])"

section \<open>The network, as the client sees it\<close>

text \<open>
  A browser \<open>File\<close>: the three properties the client reads.
\<close>

record File =
  file_name :: string
  file_type :: string
  file_size :: nat

text \<open>
  The three calls the client makes. \<open>POST_create\<close> carries the multipart form
  (\<open>files\<close>, \<open>project_name\<close>), \<open>POST_chat\<close> the JSON body
  (\<open>user_hash\<close>, \<open>project_id\<close>, \<open>query\<close>), \<open>GET_project\<close> the two path
  parameters of \<open>/api/projects/{user_hash}/{project_id}\<close>.
\<close>

datatype request =
    POST_create File string
  | POST_chat string string string
  | GET_project string string

text \<open>
  A thrown value: the handlers test \<open>err instanceof Error\<close> and read \<open>err.message\<close>.
\<close>

datatype thrown = Error string | NonError

text \<open>
  What \<open>await fetch(...)\<close> gives: the promise rejects, or it resolves to a response with
  \<open>ok\<close>, \<open>statusText\<close> and a body whose \<open>json()\<close> either throws or yields a value
  of the declared interface.
\<close>

record 'a response =
  ok :: bool
  statusText :: string
  json :: "thrown + 'a"

datatype 'a fetched = Rejected thrown | Resolved "'a response"

section \<open>The top-level page: \<open>DemoPage\<close>\<close>

datatype AppState = Landing | Share | Chat

record demo_page =
  appState :: AppState
  chatId :: "string option"

text \<open>\<open>useState('landing')\<close>, \<open>useState(null)\<close>.\<close>

definition DemoPage_initial :: demo_page where
  "DemoPage_initial = \<lparr>appState = Landing, chatId = None\<rparr>"

text \<open>
  The mount effect:
  \<^verbatim>\<open>
  const currentPath = window.location.pathname;
  if (currentPath.startsWith('/chat/')) { setChatId(currentPath); setAppState('chat'); }
  \<close>
  The two setters run in one synchronous block and are applied together.
\<close>

definition DemoPage_mount :: "string \<Rightarrow> demo_page \<Rightarrow> demo_page" where
  "DemoPage_mount currentPath st =
     (if startsWith currentPath ''/chat/''
      then st\<lparr>chatId := Some currentPath, appState := Chat\<rparr>
      else st)"

text \<open>
  The label sent with the file:
  \<^verbatim>\<open>formData.append('project_name', file.name.replace('.pdf', ''));\<close>
\<close>

definition project_name :: "File \<Rightarrow> string" where
  "project_name f = replace ''.pdf'' [] (file_name f)"

text \<open>
  \<open>handleFileUpload\<close> of \<open>DemoPage\<close>. It builds the form, issues the single POST, and
  either throws (fetch rejected, status not ok, body not JSON) leaving the page state as it
  was, or stores the generated path, moves to the share phase and returns the path (the
  two setters follow each other with no \<open>await\<close> in between and are applied
  together). The result is the thrown value or the path, the page state, and the requests
  issued.
\<close>

definition DemoPage_handleFileUpload ::
  "File \<Rightarrow> create_result fetched \<Rightarrow> demo_page \<Rightarrow> (thrown + string) \<times> demo_page \<times> request list"
where
  "DemoPage_handleFileUpload f outcome st =
     (let formData = POST_create f (project_name f)
      in case outcome of
           Rejected e \<Rightarrow> (Inl e, st, [formData])
         | Resolved r \<Rightarrow>
             if \<not> ok r then (Inl (Error (''Upload failed: '' @ statusText r)), st, [formData])
             else (case json r of
                     Inl e \<Rightarrow> (Inl e, st, [formData])
                   | Inr result \<Rightarrow>
                       (Inr (chatUrl result),
                        st\<lparr>chatId := Some (chatUrl result), appState := Share\<rparr>,
                        [formData])))"

text \<open>\<open>handleCreateNew\<close>: \<open>setChatId(null); setAppState('landing');\<close>\<close>

definition handleCreateNew :: "demo_page \<Rightarrow> demo_page" where
  "handleCreateNew st = st\<lparr>chatId := None, appState := Landing\<rparr>"

text \<open>
  The events that change the page state, and the state after a sequence of them, from
  the initial state of a fresh activation.
\<close>

datatype page_event =
    Mount string
  | Upload File "create_result fetched"
  | CreateNew

fun page_step :: "demo_page \<Rightarrow> page_event \<Rightarrow> demo_page" where
  "page_step st (Mount currentPath) = DemoPage_mount currentPath st"
| "page_step st (Upload f outcome) = fst (snd (DemoPage_handleFileUpload f outcome st))"
| "page_step st CreateNew = handleCreateNew st"

definition page_after :: "page_event list \<Rightarrow> demo_page" where
  "page_after evs = foldl page_step DemoPage_initial evs"

text \<open>
  The relation between the two cells of the page state: a path is stored exactly in the
  share and chat phases.
\<close>

definition phase_invariant :: "demo_page \<Rightarrow> bool" where
  "phase_invariant st = ((chatId st \<noteq> None) = (appState st \<in> {Share, Chat}))"

section \<open>The landing surface: \<open>LandingPage\<close>\<close>

record landing_page =
  dragOver :: bool
  uploading :: bool
  uploadingFileName :: string

text \<open>
  What a handler of the landing surface can touch: its own state, the page state (through
  the \<open>onFileUpload\<close> callback, which is \<open>DemoPage\<close>'s \<open>handleFileUpload\<close>), the
  blocking notices shown with \<open>alert\<close>, and the network.
\<close>

record world =
  page :: demo_page
  landing :: landing_page
  alerts :: "string list"
  requests :: "request list"

definition world_initial :: world where
  "world_initial =
     \<lparr>page = DemoPage_initial,
      landing = \<lparr>dragOver = False, uploading = False, uploadingFileName = []\<rparr>,
      alerts = [], requests = []\<rparr>"

text \<open>
  \<open>handleFileUpload\<close> of \<open>LandingPage\<close>: the size check with its early return, then the
  callback inside \<open>try\<close>/\<open>catch\<close>/\<open>finally\<close>.
\<close>

definition LandingPage_handleFileUpload ::
  "File \<Rightarrow> create_result fetched \<Rightarrow> world \<Rightarrow> world"
where
  "LandingPage_handleFileUpload f outcome w =
     (if file_size f > 15 * 1024 * 1024
      then w\<lparr>alerts := alerts w @ [''File size must be less than 15MB'']\<rparr>
      else
        let w1 = w\<lparr>landing := (landing w)\<lparr>uploadingFileName := file_name f, uploading := True\<rparr>\<rparr>;
            (res, pg, reqs) = DemoPage_handleFileUpload f outcome (page w1);
            w2 = w1\<lparr>page := pg, requests := requests w1 @ reqs\<rparr>;
            w3 = (case res of
                    Inl e \<Rightarrow> w2\<lparr>alerts := alerts w2 @ [''Upload failed. Please try again.'']\<rparr>
                  | Inr p \<Rightarrow> w2)
        in w3\<lparr>landing := (landing w3)\<lparr>uploading := False, uploadingFileName := []\<rparr>\<rparr>)"

text \<open>
  The drag-and-drop path:
  \<^verbatim>\<open>
  setDragOver(false);
  const files = Array.from(e.dataTransfer.files);
  const pdfFile = files.find((file) => file.type === "application/pdf");
  if (pdfFile) { await handleFileUpload(pdfFile); }
  \<close>
\<close>

definition handleDrop :: "File list \<Rightarrow> create_result fetched \<Rightarrow> world \<Rightarrow> world" where
  "handleDrop files outcome w =
     (let w0 = w\<lparr>landing := (landing w)\<lparr>dragOver := False\<rparr>\<rparr>
      in case find (\<lambda>f. file_type f = ''application/pdf'') files of
           Some pdfFile \<Rightarrow> LandingPage_handleFileUpload pdfFile outcome w0
         | None \<Rightarrow> w0)"

text \<open>
  The file-picker path:
  \<^verbatim>\<open>
  const file = e.target.files?.[0];
  if (file) { await handleFileUpload(file); }
  \<close>
  The \<open>accept="application/pdf"\<close> attribute of the input only presets the filter of the
  browser's dialog; the list the handler receives can hold a file of any type.
\<close>

definition handleFileInputChange :: "File list \<Rightarrow> create_result fetched \<Rightarrow> world \<Rightarrow> world" where
  "handleFileInputChange files outcome w =
     (case files of
        [] \<Rightarrow> w
      | f # rest \<Rightarrow> LandingPage_handleFileUpload f outcome w)"

text \<open>
  The label as the specification words it: the name without its \<open>.pdf\<close> suffix, and the
  name itself when it does not end in \<open>.pdf\<close>.
\<close>

definition strip_pdf_suffix :: "string \<Rightarrow> string" where
  "strip_pdf_suffix nm =
     (if length nm \<ge> 4 \<and> drop (length nm - 4) nm = ''.pdf''
      then take (length nm - 4) nm else nm)"

section \<open>The chat hook: \<open>useCustomChat\<close>\<close>

text \<open>
  A message in the format the hook builds:
  \<open>{ id, type: 'human' | 'ai', content: [{ type: 'text', text }] }\<close>.
\<close>

datatype role = Human | Ai

datatype content_block = Text string

record message =
  msg_id :: string
  msg_type :: role
  content :: "content_block list"

text \<open>The interfaces \<open>ChatResponse\<close> and \<open>ProjectInfo\<close>.\<close>

record chat_response =
  answer :: string
  sources :: "string list"
  processing_steps :: "string list"
  resp_error :: "string option"

record project_info =
  info_project_id :: string
  info_project_name :: string
  description :: "string option"
  document_count :: int
  total_chunks :: int
  created_at :: string
  document_names :: "string list"

text \<open>
  The four \<open>useState\<close> cells of the hook, and the log of the network calls it has
  issued.
\<close>

record chat_session =
  messages :: "message list"
  isLoading :: bool
  error :: "string option"
  documentName :: "string option"
  fetches :: "request list"

definition useCustomChat_initial :: chat_session where
  "useCustomChat_initial =
     \<lparr>messages = [], isLoading = False, error = None, documentName = None, fetches = []\<rparr>"

text \<open>
  \<open>loadProjectInfo\<close>, run by the effect of the hook. Nothing is fetched when the path
  does not resolve. A rejected fetch or a body that is not JSON is logged and swallowed; a
  status that is not ok is ignored; otherwise the first document name, when there is
  one, is stored.
\<close>

definition loadProjectInfo :: "string \<Rightarrow> project_info fetched \<Rightarrow> chat_session \<Rightarrow> chat_session" where
  "loadProjectInfo pathname outcome s =
     (case getChatParams pathname of
        None \<Rightarrow> s
      | Some chatParams \<Rightarrow>
          let s1 = s\<lparr>fetches := fetches s @ [GET_project (user_hash chatParams) (project_id chatParams)]\<rparr>
          in case outcome of
               Rejected e \<Rightarrow> s1
             | Resolved r \<Rightarrow>
                 if ok r then
                   (case json r of
                      Inl e \<Rightarrow> s1
                    | Inr projectInfo \<Rightarrow>
                        (case document_names projectInfo of
                           [] \<Rightarrow> s1
                         | d # ds \<Rightarrow> s1\<lparr>documentName := Some d\<rparr>))
                 else s1)"

definition humanMessage :: "string \<Rightarrow> nat \<Rightarrow> message" where
  "humanMessage messageText now =
     \<lparr>msg_id = ''human-'' @ toString now, msg_type = Human, content = [Text messageText]\<rparr>"

definition aiMessage :: "string \<Rightarrow> nat \<Rightarrow> message" where
  "aiMessage answerText now =
     \<lparr>msg_id = ''ai-'' @ toString now, msg_type = Ai, content = [Text answerText]\<rparr>"

text \<open>
  \<open>sendMessage\<close> is an async function; it is modelled in the two parts the scheduler
  runs it in. The first part is everything up to \<open>await fetch('/api/chat', ...)\<close>: it runs
  synchronously inside the call.
  \<^verbatim>\<open>
  setIsLoading(true);
  setError(null);
  const humanMessage = { id: `human-${Date.now()}`, type: 'human',
                         content: [{ type: 'text', text: messageText }] };
  setMessages(prev => [...prev, humanMessage]);
  ... fetch('/api/chat', { method: 'POST', body: JSON.stringify({ user_hash, project_id, query }) })
  \<close>
\<close>

definition sendMessage_request :: "chat_params \<Rightarrow> string \<Rightarrow> nat \<Rightarrow> chat_session \<Rightarrow> chat_session" where
  "sendMessage_request chatParams messageText now s =
     (let s1 = s\<lparr>isLoading := True, error := None\<rparr>;
          s2 = s1\<lparr>messages := messages s1 @ [humanMessage messageText now]\<rparr>
      in s2\<lparr>fetches := fetches s2 @
                [POST_chat (user_hash chatParams) (project_id chatParams) messageText]\<rparr>)"

text \<open>
  The rest of the \<open>try\<close> block, run when the fetch has settled. Every \<open>throw\<close> comes
  before the first state update of the block, so the block either throws with the state
  untouched (\<open>Inl\<close>) or completes with the new state (\<open>Inr\<close>).

  \<open>documentName\<close> in the test \<open>!documentName\<close> is the variable of the render in which
  this \<open>sendMessage\<close> function was created, not the current content of the state cell:
  it is passed as \<open>documentName_seen\<close>.
\<close>

definition sendMessage_try ::
  "string option \<Rightarrow> nat \<Rightarrow> chat_response fetched \<Rightarrow> chat_session \<Rightarrow> thrown + chat_session"
where
  "sendMessage_try documentName_seen now outcome s =
     (case outcome of
        Rejected e \<Rightarrow> Inl e
      | Resolved r \<Rightarrow>
          if \<not> ok r then Inl (Error (''Chat request failed: '' @ statusText r))
          else (case json r of
                  Inl e \<Rightarrow> Inl e
                | Inr data \<Rightarrow>
                    if truthy (resp_error data) then Inl (Error (the (resp_error data)))
                    else
                      let s1 = (if \<not> truthy documentName_seen \<and> sources data \<noteq> []
                                then s\<lparr>documentName := Some (hd (sources data))\<rparr>
                                else s)
                      in Inr (s1\<lparr>messages := messages s1 @ [aiMessage (answer data) now]\<rparr>)))"

text \<open>
  \<open>catch\<close> and \<open>finally\<close>:
  \<^verbatim>\<open>
  } catch (err) {
    const errorMessage = err instanceof Error ? err.message : 'Unknown error occurred';
    setError(errorMessage);
  } finally {
    setIsLoading(false);
  }
  \<close>
\<close>

definition errorMessage :: "thrown \<Rightarrow> string" where
  "errorMessage err = (case err of Error m \<Rightarrow> m | NonError \<Rightarrow> ''Unknown error occurred'')"

definition sendMessage_response ::
  "string option \<Rightarrow> nat \<Rightarrow> chat_response fetched \<Rightarrow> chat_session \<Rightarrow> chat_session"
where
  "sendMessage_response documentName_seen now outcome s =
     (let s1 = (case sendMessage_try documentName_seen now outcome s of
                  Inl err \<Rightarrow> s\<lparr>error := Some (errorMessage err)\<rparr>
                | Inr s' \<Rightarrow> s')
      in s1\<lparr>isLoading := False\<rparr>)"

text \<open>
  The whole call, from invocation to the moment the returned promise settles. The two
  clock readings are those of the two \<open>Date.now()\<close> calls; \<open>outcome\<close> is what the
  network does with the request.
  \<^verbatim>\<open>
  const chatParams = getChatParams();
  if (!chatParams) { setError('Invalid chat URL format'); return; }
  \<close>
\<close>

definition sendMessage ::
  "string \<Rightarrow> string option \<Rightarrow> string \<Rightarrow> nat \<Rightarrow> nat \<Rightarrow> chat_response fetched \<Rightarrow> chat_session \<Rightarrow> chat_session"
where
  "sendMessage pathname documentName_seen messageText now_human now_ai outcome s =
     (case getChatParams pathname of
        None \<Rightarrow> s\<lparr>error := Some ''Invalid chat URL format''\<rparr>
      | Some chatParams \<Rightarrow>
          sendMessage_response documentName_seen now_ai outcome
            (sendMessage_request chatParams messageText now_human s))"

text \<open>
  The function the hook hands out. It is built by
  \<open>useCallback(async (messageText) => {...}, [getChatParams])\<close>, and \<open>getChatParams\<close> by
  \<open>useCallback(..., [pathname])\<close>: as long as the path of the activation stays the same,
  every render returns the function object created by the first render. The
  \<open>documentName\<close> that function refers to is the first render's variable, which holds the
  initial value of the state cell.
\<close>

definition activation_sendMessage ::
  "string \<Rightarrow> string \<Rightarrow> nat \<Rightarrow> nat \<Rightarrow> chat_response fetched \<Rightarrow> chat_session \<Rightarrow> chat_session"
where
  "activation_sendMessage pathname =
     sendMessage pathname (documentName useCustomChat_initial)"

text \<open>
  Calls made one after the other on one hook instance, each settled before the next
  starts, from the initial state. A \<open>SendMessage\<close> call names the path and the
  \<open>documentName\<close> its function object closed over, so that every function object the
  hook can hand out is covered.
\<close>

datatype call =
    SendMessage string "string option" string nat nat "chat_response fetched"
  | LoadProjectInfo string "project_info fetched"

fun perform :: "chat_session \<Rightarrow> call \<Rightarrow> chat_session" where
  "perform s (SendMessage pathname seen messageText now_human now_ai outcome) =
     sendMessage pathname seen messageText now_human now_ai outcome s"
| "perform s (LoadProjectInfo pathname outcome) = loadProjectInfo pathname outcome s"

definition session_after :: "call list \<Rightarrow> chat_session" where
  "session_after calls = foldl perform useCustomChat_initial calls"

section \<open>Facts about splitting\<close>

lemma split_nonempty: "split sep s \<noteq> []"
  by (induction s) (auto split: list.splits)

lemma split_length_pos: "1 \<le> length (split sep s)"
  using split_nonempty [of sep s] by (cases "split sep s") auto

lemma split_no_sep: "sep \<notin> set s \<Longrightarrow> split sep s = [s]"
  by (induction s) auto

text \<open>
  The model of \<open>split\<close> yields one segment more than there are separators, and no
  segment holds a separator.
\<close>

lemma split_length: "length (split sep s) = Suc (count_list s sep)"
proof (induction s)
  case Nil
  show ?case by simp
next
  case (Cons c cs)
  obtain seg segs where "split sep cs = seg # segs"
    using split_nonempty [of sep cs] by (cases "split sep cs") auto
  with Cons show ?case by auto
qed

lemma split_segments_no_sep: "seg \<in> set (split sep s) \<Longrightarrow> sep \<notin> set seg"
proof (induction s arbitrary: seg)
  case Nil
  then show ?case by simp
next
  case (Cons c cs)
  obtain x xs where sp: "split sep cs = x # xs"
    using split_nonempty [of sep cs] by (cases "split sep cs") auto
  show ?case
  proof (cases "c = sep")
    case True
    with Cons show ?thesis by auto
  next
    case False
    with Cons.prems sp have "seg = c # x \<or> seg \<in> set xs" by auto
    then show ?thesis
    proof
      assume "seg = c # x"
      moreover have "sep \<notin> set x" using Cons.IH [of x] sp by simp
      ultimately show ?thesis using False by auto
    next
      assume "seg \<in> set xs"
      then show ?thesis using Cons.IH [of seg] sp by simp
    qed
  qed
qed

lemma split_append_sep:
  "split sep (xs @ sep # ys) = split sep xs @ split sep ys"
proof (induction xs)
  case Nil
  show ?case by simp
next
  case (Cons x xs)
  show ?case
  proof (cases "x = sep")
    case True
    with Cons show ?thesis by simp
  next
    case False
    obtain seg segs where sp: "split sep xs = seg # segs"
      using split_nonempty [of sep xs] by (cases "split sep xs") auto
    with False Cons show ?thesis by simp
  qed
qed

lemma split_chatUrl:
  "split CHR ''/'' (chatUrl r) =
     [] # ''chat'' # split CHR ''/'' (res_user_hash r) @ split CHR ''/'' (res_project_id r)"
proof -
  have "chatUrl r = [] @ CHR ''/'' # (''chat'' @ CHR ''/'' # (res_user_hash r @ CHR ''/'' # res_project_id r))"
    by (simp add: chatUrl_def)
  then have "split CHR ''/'' (chatUrl r) =
      split CHR ''/'' [] @ split CHR ''/'' ''chat'' @
      split CHR ''/'' (res_user_hash r) @ split CHR ''/'' (res_project_id r)"
    by (simp only: split_append_sep append_assoc)
  then show ?thesis by simp
qed

section \<open>Session identity resolution\<close>

text \<open>
  C4. The resolver depends on the path alone. It returns the third and fourth segment of
  the path split at \<open>/\<close> exactly when there are at least four segments and the second one
  is \<open>chat\<close>, and nothing otherwise. The path \<open>/chat/abc/123\<close> resolves to owner
  \<open>abc\<close> and session \<open>123\<close>; the paths \<open>/\<close>, \<open>/chat\<close> and \<open>/chat/abc\<close> do not
  resolve.
\<close>

theorem getChatParams_resolves:
  "(getChatParams p = Some \<lparr>user_hash = u, project_id = i\<rparr>) =
     (4 \<le> length (split CHR ''/'' p) \<and> split CHR ''/'' p ! 1 = ''chat''
      \<and> split CHR ''/'' p ! 2 = u \<and> split CHR ''/'' p ! 3 = i)
   \<and> (getChatParams p = None) =
     (length (split CHR ''/'' p) < 4 \<or> split CHR ''/'' p ! 1 \<noteq> ''chat'')
   \<and> getChatParams ''/chat/abc/123'' = Some \<lparr>user_hash = ''abc'', project_id = ''123''\<rparr>
   \<and> getChatParams ''/'' = None
   \<and> getChatParams ''/chat'' = None
   \<and> getChatParams ''/chat/abc'' = None"
  by (auto simp: getChatParams_def Let_def)

text \<open>
  C6. Whatever two strings the backend returns as \<open>user_hash\<close> and \<open>project_id\<close>, the
  path the upload handler builds from them resolves to a session identity.
\<close>

theorem getChatParams_chatUrl:
  "\<exists>ident. getChatParams (chatUrl \<lparr>res_user_hash = u, res_project_id = i\<rparr>) = Some ident"
proof -
  let ?r = "\<lparr>res_user_hash = u, res_project_id = i\<rparr>"
  obtain a as where ua: "split CHR ''/'' u = a # as"
    using split_nonempty [of "CHR ''/''" u] by (cases "split CHR ''/'' u") auto
  obtain b bs where ib: "split CHR ''/'' i = b # bs"
    using split_nonempty [of "CHR ''/''" i] by (cases "split CHR ''/'' i") auto
  have "split CHR ''/'' (chatUrl ?r) = [] # ''chat'' # (a # as) @ (b # bs)"
    using split_chatUrl [of ?r] ua ib by simp
  then show ?thesis
    by (simp add: getChatParams_def Let_def)
qed

section \<open>The upload path\<close>

lemma LandingPage_oversize:
  "file_size f > 15 * 1024 * 1024 \<Longrightarrow>
     LandingPage_handleFileUpload f outcome w =
       w\<lparr>alerts := alerts w @ [''File size must be less than 15MB'']\<rparr>"
  by (simp add: LandingPage_handleFileUpload_def)

lemma LandingPage_requests:
  "requests (LandingPage_handleFileUpload f outcome w) =
     (if file_size f > 15 * 1024 * 1024 then requests w
      else requests w @ [POST_create f (project_name f)])"
  by (simp add: LandingPage_handleFileUpload_def DemoPage_handleFileUpload_def Let_def
        split: fetched.splits sum.splits prod.splits)

lemma find_Some_holds: "find P xs = Some x \<Longrightarrow> P x \<and> x \<in> set xs"
  by (induction xs) (auto split: if_splits)

text \<open>
  A drop never posts anything but a PDF-typed file of at most 15 MiB: the type filter of
  \<open>handleDrop\<close> and the size check together.
\<close>

lemma handleDrop_requests:
  "requests (handleDrop files outcome w) = requests w
   \<or> (\<exists>f \<in> set files. file_type f = ''application/pdf'' \<and> file_size f \<le> 15 * 1024 * 1024
         \<and> requests (handleDrop files outcome w) = requests w @ [POST_create f (project_name f)])"
proof (cases "find (\<lambda>f. file_type f = ''application/pdf'') files")
  case None
  then show ?thesis by (simp add: handleDrop_def Let_def)
next
  case (Some pdfFile)
  from find_Some_holds [OF Some]
  have "file_type pdfFile = ''application/pdf''" and "pdfFile \<in> set files"
    by simp_all
  with Some show ?thesis
    by (auto simp: handleDrop_def Let_def LandingPage_requests)
qed

text \<open>
  The file picker posts its first file whenever that file passes the size check; the
  type of the file is not looked at.
\<close>

lemma handleFileInputChange_requests:
  "requests (handleFileInputChange files outcome w) =
     (case files of
        [] \<Rightarrow> requests w
      | f # rest \<Rightarrow>
          if file_size f > 15 * 1024 * 1024 then requests w
          else requests w @ [POST_create f (project_name f)])"
  by (simp add: handleFileInputChange_def LandingPage_requests split: list.splits)

text \<open>
  C1. The claim is that a file over 15 MiB or of a type other than \<open>application/pdf\<close>
  is rejected before any network call, on the drop path and on the picker path. The size
  half holds on both paths (\<open>LandingPage_requests\<close>) and the type half on the drop path
  (\<open>handleDrop_requests\<close>). On the picker path the type is never tested: a 2048-byte
  \<open>text/plain\<close> file chosen there is posted to the creation endpoint, no notice is
  shown, and the page moves to the share phase.
\<close>

theorem handleFileInputChange_posts_non_pdf:
  "requests (handleFileInputChange
      [\<lparr>file_name = ''notes.txt'', file_type = ''text/plain'', file_size = 2048\<rparr>]
      (Resolved \<lparr>ok = True, statusText = ''OK'',
         json = Inr \<lparr>res_user_hash = ''abc'', res_project_id = ''123''\<rparr>\<rparr>)
      world_initial)
     = [POST_create \<lparr>file_name = ''notes.txt'', file_type = ''text/plain'', file_size = 2048\<rparr>
          ''notes.txt'']
   \<and> alerts (handleFileInputChange
      [\<lparr>file_name = ''notes.txt'', file_type = ''text/plain'', file_size = 2048\<rparr>]
      (Resolved \<lparr>ok = True, statusText = ''OK'',
         json = Inr \<lparr>res_user_hash = ''abc'', res_project_id = ''123''\<rparr>\<rparr>)
      world_initial) = []
   \<and> page (handleFileInputChange
      [\<lparr>file_name = ''notes.txt'', file_type = ''text/plain'', file_size = 2048\<rparr>]
      (Resolved \<lparr>ok = True, statusText = ''OK'',
         json = Inr \<lparr>res_user_hash = ''abc'', res_project_id = ''123''\<rparr>\<rparr>)
      world_initial) = \<lparr>appState = Share, chatId = Some ''/chat/abc/123''\<rparr>"
  by (simp add: handleFileInputChange_def LandingPage_handleFileUpload_def
        DemoPage_handleFileUpload_def world_initial_def DemoPage_initial_def project_name_def
        chatUrl_def startsWith_def Let_def)

subsection \<open>The project label\<close>

text \<open>
  For a name whose only dot is the one of a final \<open>.pdf\<close>, and for a name without a
  dot, replacing the first occurrence and stripping the suffix give the same label.
\<close>

lemma replace_pdf_suffix:
  "CHR ''.'' \<notin> set base \<Longrightarrow> replace ''.pdf'' [] (base @ ''.pdf'') = base"
  by (induction base) (auto simp: startsWith_def)

lemma replace_pdf_absent:
  "CHR ''.'' \<notin> set nm \<Longrightarrow> replace ''.pdf'' [] nm = nm"
  by (induction nm) (auto simp: startsWith_def)

text \<open>
  C8. The claim is that the label is the file name with its \<open>.pdf\<close> suffix stripped.
  The code removes the first occurrence of \<open>.pdf\<close> wherever it stands: for
  \<open>q3.pdf.signed.pdf\<close> the label sent is \<open>q3.signed.pdf\<close>, where stripping the suffix
  gives \<open>q3.pdf.signed\<close>. For \<open>report.pdf\<close> both give \<open>report\<close>.
\<close>

theorem project_name_first_occurrence:
  "project_name \<lparr>file_name = ''q3.pdf.signed.pdf'', file_type = ''application/pdf'',
                  file_size = 2048\<rparr> = ''q3.signed.pdf''
   \<and> strip_pdf_suffix ''q3.pdf.signed.pdf'' = ''q3.pdf.signed''
   \<and> project_name \<lparr>file_name = ''report.pdf'', file_type = ''application/pdf'',
                  file_size = 2048\<rparr> = ''report''
   \<and> strip_pdf_suffix ''report.pdf'' = ''report''"
  by (simp add: project_name_def startsWith_def strip_pdf_suffix_def)

section \<open>The phases of the page\<close>

lemma page_step_invariant: "phase_invariant st \<Longrightarrow> phase_invariant (page_step st ev)"
  by (cases ev)
     (auto simp: phase_invariant_def DemoPage_mount_def DemoPage_handleFileUpload_def
           handleCreateNew_def Let_def split: fetched.splits sum.splits)

lemma foldl_page_step_invariant:
  "phase_invariant st \<Longrightarrow> phase_invariant (foldl page_step st evs)"
  by (induction evs arbitrary: st) (simp_all add: page_step_invariant)

text \<open>
  C10. After any sequence of the page's transitions from the initial state (the startup
  check, uploads whatever their outcome, resets), a path is stored if and only if the phase
  is share or chat; and the phase is landing if and only if no path is stored.
\<close>

theorem page_after_invariant:
  "(chatId (page_after evs) \<noteq> None) = (appState (page_after evs) \<in> {Share, Chat})
   \<and> (appState (page_after evs) = Landing) = (chatId (page_after evs) = None)"
proof -
  have "phase_invariant DemoPage_initial"
    by (simp add: phase_invariant_def DemoPage_initial_def)
  then have "phase_invariant (page_after evs)"
    unfolding page_after_def by (rule foldl_page_step_invariant)
  then show ?thesis
    by (cases "appState (page_after evs)") (auto simp: phase_invariant_def)
qed

section \<open>The chat turn\<close>

lemma getChatParams_abc_123:
  "getChatParams ''/chat/abc/123'' = Some \<lparr>user_hash = ''abc'', project_id = ''123''\<rparr>"
  by (simp add: getChatParams_def)

lemma getChatParams_root: "getChatParams ''/'' = None"
  by (simp add: getChatParams_def)

lemma toString_digits:
  "toString 1 = ''1''" "toString 2 = ''2''" "toString 3 = ''3''" "toString 4 = ''4''"
  by (simp_all add: toString.simps char_of_def bit_Suc_0_iff)

subsection \<open>The unresolved path\<close>

text \<open>
  C9. When the path does not resolve, \<open>sendMessage\<close> changes nothing but the error
  cell, which receives the invalid-session message: the history is as it was and no
  request has been issued. Loading the metadata issues no request either.
\<close>

theorem sendMessage_unresolved:
  assumes "getChatParams pathname = None"
  shows "sendMessage pathname seen messageText now_human now_ai outcome s =
           s\<lparr>error := Some ''Invalid chat URL format''\<rparr>
     \<and> messages (sendMessage pathname seen messageText now_human now_ai outcome s) = messages s
     \<and> fetches (sendMessage pathname seen messageText now_human now_ai outcome s) = fetches s
     \<and> error (sendMessage pathname seen messageText now_human now_ai outcome s) =
          Some ''Invalid chat URL format''
     \<and> loadProjectInfo pathname info_outcome s = s"
  using assms by (simp add: sendMessage_def loadProjectInfo_def)

theorem sendMessage_unresolved_witness:
  "getChatParams ''/'' = None
   \<and> sendMessage ''/'' None ''What is this about?'' 1 2 (Rejected NonError)
        \<lparr>messages = [humanMessage ''earlier'' 0], isLoading = False, error = None,
         documentName = None, fetches = []\<rparr>
      = \<lparr>messages = [humanMessage ''earlier'' 0], isLoading = False,
         error = Some ''Invalid chat URL format'', documentName = None, fetches = []\<rparr>"
  using sendMessage_unresolved [of "''/''" None "''What is this about?''" 1 2 "Rejected NonError"
      "\<lparr>messages = [humanMessage ''earlier'' 0], isLoading = False, error = None,
         documentName = None, fetches = []\<rparr>"] getChatParams_root
  by simp

subsection \<open>Backend failures\<close>

lemma sendMessage_try_failure:
  assumes "\<not> ok r \<or> (json r = Inr data \<and> resp_error data = Some e \<and> e \<noteq> [])"
  shows "sendMessage_try seen now (Resolved r) s =
           Inl (Error (if \<not> ok r then ''Chat request failed: '' @ statusText r else e))"
  using assms by (auto simp: sendMessage_try_def truthy_def)

text \<open>
  C2, as amended. With a path that resolves, when the backend answers with a status that
  is not ok, or with an ok status and a body whose \<open>error\<close> field is a non-empty string,
  the history after the call is the old history followed by exactly one new entry, of
  role human and with the text as its single content block; the ai entries are those of
  the old history, the human entries are one more; and the error cell holds the failure
  message. (An \<open>error\<close> field that is present but empty is not a failure for the code,
  see the counterexample.)
\<close>

theorem sendMessage_backend_failure:
  assumes "getChatParams pathname = Some chatParams"
    and "\<not> ok r \<or> (json r = Inr data \<and> resp_error data = Some e \<and> e \<noteq> [])"
  shows "messages (sendMessage pathname seen messageText now_human now_ai (Resolved r) s) =
           messages s @ [\<lparr>msg_id = ''human-'' @ toString now_human, msg_type = Human,
                          content = [Text messageText]\<rparr>]
     \<and> filter (\<lambda>m. msg_type m = Ai)
          (messages (sendMessage pathname seen messageText now_human now_ai (Resolved r) s)) =
        filter (\<lambda>m. msg_type m = Ai) (messages s)
     \<and> length (filter (\<lambda>m. msg_type m = Human)
          (messages (sendMessage pathname seen messageText now_human now_ai (Resolved r) s))) =
        Suc (length (filter (\<lambda>m. msg_type m = Human) (messages s)))
     \<and> error (sendMessage pathname seen messageText now_human now_ai (Resolved r) s) =
           Some (if \<not> ok r then ''Chat request failed: '' @ statusText r else e)
     \<and> error (sendMessage pathname seen messageText now_human now_ai (Resolved r) s) \<noteq> None"
  using assms(1) sendMessage_try_failure [OF assms(2)]
  by (simp add: sendMessage_def sendMessage_response_def sendMessage_request_def Let_def
        errorMessage_def humanMessage_def)

theorem sendMessage_backend_failure_witness:
  "getChatParams ''/chat/abc/123'' = Some \<lparr>user_hash = ''abc'', project_id = ''123''\<rparr>
   \<and> messages (sendMessage ''/chat/abc/123'' None ''What is this about?'' 1 2
        (Resolved \<lparr>ok = False, statusText = ''Internal Server Error'',
           json = Inl (Error ''Unexpected token'')\<rparr>)
        useCustomChat_initial)
       = [\<lparr>msg_id = ''human-1'', msg_type = Human, content = [Text ''What is this about?'']\<rparr>]
   \<and> error (sendMessage ''/chat/abc/123'' None ''What is this about?'' 1 2
        (Resolved \<lparr>ok = False, statusText = ''Internal Server Error'',
           json = Inl (Error ''Unexpected token'')\<rparr>)
        useCustomChat_initial) = Some ''Chat request failed: Internal Server Error''
   \<and> messages (sendMessage ''/chat/abc/123'' None ''What is this about?'' 1 2
        (Resolved \<lparr>ok = True, statusText = ''OK'',
           json = Inr \<lparr>answer = [], sources = [], processing_steps = [],
                       resp_error = Some ''Project not found''\<rparr>\<rparr>)
        useCustomChat_initial)
       = [\<lparr>msg_id = ''human-1'', msg_type = Human, content = [Text ''What is this about?'']\<rparr>]
   \<and> error (sendMessage ''/chat/abc/123'' None ''What is this about?'' 1 2
        (Resolved \<lparr>ok = True, statusText = ''OK'',
           json = Inr \<lparr>answer = [], sources = [], processing_steps = [],
                       resp_error = Some ''Project not found''\<rparr>\<rparr>)
        useCustomChat_initial) = Some ''Project not found''"
  using
    sendMessage_backend_failure
      [of "''/chat/abc/123''" "\<lparr>user_hash = ''abc'', project_id = ''123''\<rparr>"
        "\<lparr>ok = False, statusText = ''Internal Server Error'',
           json = Inl (Error ''Unexpected token'')\<rparr>"
        "\<lparr>answer = [], sources = [], processing_steps = [], resp_error = None\<rparr>"
        "[]" None "''What is this about?''" 1 2 useCustomChat_initial]
    sendMessage_backend_failure
      [of "''/chat/abc/123''" "\<lparr>user_hash = ''abc'', project_id = ''123''\<rparr>"
        "\<lparr>ok = True, statusText = ''OK'',
           json = Inr \<lparr>answer = [], sources = [], processing_steps = [],
                       resp_error = Some ''Project not found''\<rparr>\<rparr>"
        "\<lparr>answer = [], sources = [], processing_steps = [],
           resp_error = Some ''Project not found''\<rparr>"
        "''Project not found''" None "''What is this about?''" 1 2 useCustomChat_initial]
    getChatParams_abc_123 toString_digits(1)
  by (simp add: useCustomChat_initial_def)

text \<open>
  The claim as first stated, with any present \<open>error\<close> field counting as a failure, does
  not hold: for an ok response whose \<open>error\<close> field is the empty string the test
  \<open>if (data.error)\<close> is false, an ai entry carrying the answer is appended after the
  human one, and the error cell stays empty.
\<close>

theorem sendMessage_empty_error_field:
  "getChatParams ''/chat/abc/123'' \<noteq> None
   \<and> resp_error \<lparr>answer = ''A'', sources = [], processing_steps = [], resp_error = Some []\<rparr>
       \<noteq> None
   \<and> messages (sendMessage ''/chat/abc/123'' None ''Q'' 1 2
        (Resolved \<lparr>ok = True, statusText = ''OK'',
           json = Inr \<lparr>answer = ''A'', sources = [], processing_steps = [],
                       resp_error = Some []\<rparr>\<rparr>)
        useCustomChat_initial)
       = [\<lparr>msg_id = ''human-1'', msg_type = Human, content = [Text ''Q'']\<rparr>,
          \<lparr>msg_id = ''ai-2'', msg_type = Ai, content = [Text ''A'']\<rparr>]
   \<and> error (sendMessage ''/chat/abc/123'' None ''Q'' 1 2
        (Resolved \<lparr>ok = True, statusText = ''OK'',
           json = Inr \<lparr>answer = ''A'', sources = [], processing_steps = [],
                       resp_error = Some []\<rparr>\<rparr>)
        useCustomChat_initial) = None"
  using toString_digits(1,2)
  by (simp add: getChatParams_abc_123 sendMessage_def sendMessage_response_def
        sendMessage_request_def sendMessage_try_def truthy_def useCustomChat_initial_def Let_def
        humanMessage_def aiMessage_def)

subsection \<open>The in-flight flag\<close>

lemma sendMessage_response_isLoading:
  "isLoading (sendMessage_response seen now outcome s) = False"
  by (simp add: sendMessage_response_def Let_def)

lemma loadProjectInfo_isLoading:
  "isLoading (loadProjectInfo pathname outcome s) = isLoading s"
  by (simp add: loadProjectInfo_def Let_def
        split: option.splits fetched.splits sum.splits list.splits)

lemma sendMessage_isLoading:
  "isLoading (sendMessage pathname seen messageText now_human now_ai outcome s) =
     (case getChatParams pathname of None \<Rightarrow> isLoading s | Some cp \<Rightarrow> False)"
  by (simp add: sendMessage_def sendMessage_response_isLoading split: option.splits)

lemma perform_isLoading:
  "isLoading s = False \<Longrightarrow> isLoading (perform s c) = False"
  by (cases c) (simp_all add: sendMessage_isLoading loadProjectInfo_isLoading split: option.splits)

lemma foldl_perform_isLoading:
  "isLoading s = False \<Longrightarrow> isLoading (foldl perform s calls) = False"
  by (induction calls arbitrary: s) (simp_all add: perform_isLoading)

text \<open>
  C3. The flag is down after every call of a hook instance, whatever the calls before it
  were, their paths and their outcomes. The continuation that runs when a fetch settles
  lowers it on every outcome (rejected fetch, status not ok, body that fails to parse,
  error field, success), from any state; so a call on a path that resolves ends with
  the flag down even when it started with the flag up.
\<close>

theorem sendMessage_releases_isLoading:
  "isLoading (session_after calls) = False
   \<and> isLoading (sendMessage_response seen now outcome s) = False
   \<and> (getChatParams pathname \<noteq> None \<longrightarrow>
        isLoading (sendMessage pathname seen messageText now_human now_ai outcome s) = False)"
  by (auto simp: session_after_def useCustomChat_initial_def foldl_perform_isLoading
        sendMessage_response_isLoading sendMessage_isLoading)

theorem sendMessage_releases_isLoading_witness:
  "getChatParams ''/chat/abc/123'' \<noteq> None
   \<and> isLoading (sendMessage ''/chat/abc/123'' None ''Q'' 1 2 (Rejected (Error ''Failed to fetch''))
        \<lparr>messages = [], isLoading = True, error = None, documentName = None, fetches = []\<rparr>)
       = False
   \<and> isLoading (session_after
        [SendMessage ''/'' None ''Q'' 1 2 (Rejected NonError),
         SendMessage ''/chat/abc/123'' None ''Q'' 3 4
           (Resolved \<lparr>ok = False, statusText = ''Bad Gateway'', json = Inl NonError\<rparr>)]) = False"
  using
    sendMessage_releases_isLoading
      [of "[SendMessage ''/'' None ''Q'' 1 2 (Rejected NonError),
            SendMessage ''/chat/abc/123'' None ''Q'' 3 4
              (Resolved \<lparr>ok = False, statusText = ''Bad Gateway'', json = Inl NonError\<rparr>)]"
        None 2 "Rejected (Error ''Failed to fetch'')"
        "\<lparr>messages = [], isLoading = True, error = None, documentName = None, fetches = []\<rparr>"
        "''/chat/abc/123''" "''Q''" 1]
    getChatParams_abc_123
  by simp

subsection \<open>The order of the history\<close>

lemma sendMessage_request_messages:
  "messages (sendMessage_request chatParams messageText now s) =
     messages s @ [humanMessage messageText now]"
  by (simp add: sendMessage_request_def Let_def)

lemma sendMessage_try_success:
  assumes "ok r" and "json r = Inr data" and "\<not> truthy (resp_error data)"
  shows "\<exists>s'. sendMessage_try seen now (Resolved r) s = Inr s'
            \<and> messages s' = messages s @ [aiMessage (answer data) now]"
  using assms by (simp add: sendMessage_try_def Let_def)

lemma sendMessage_response_success:
  assumes "ok r" and "json r = Inr data" and "\<not> truthy (resp_error data)"
  shows "messages (sendMessage_response seen now (Resolved r) s) =
           messages s @ [aiMessage (answer data) now]"
  using sendMessage_try_success [OF assms, of seen now s]
  by (auto simp: sendMessage_response_def Let_def)

text \<open>
  The continuation leaves the history alone, or appends one ai message; and it appends
  only for an ok response with a parsed body and no truthy error field.
\<close>

lemma sendMessage_response_messages:
  "messages (sendMessage_response seen now outcome s) = messages s
   \<or> (\<exists>r data. outcome = Resolved r \<and> ok r \<and> json r = Inr data \<and> \<not> truthy (resp_error data)
        \<and> messages (sendMessage_response seen now outcome s) =
            messages s @ [aiMessage (answer data) now])"
  by (auto simp: sendMessage_response_def sendMessage_try_def Let_def
           split: fetched.splits sum.splits)

text \<open>No call removes or reorders what the history already holds.\<close>

lemma sendMessage_appends:
  "\<exists>new. messages (sendMessage pathname seen messageText now_human now_ai outcome s) =
            messages s @ new"
proof (cases "getChatParams pathname")
  case None
  then show ?thesis by (simp add: sendMessage_def)
next
  case (Some chatParams)
  let ?a = "sendMessage_request chatParams messageText now_human s"
  from sendMessage_response_messages [of seen now_ai outcome ?a]
  have "\<exists>new. messages (sendMessage_response seen now_ai outcome ?a) = messages ?a @ new"
    by auto
  with Some show ?thesis
    by (auto simp: sendMessage_def sendMessage_request_messages)
qed

text \<open>
  C5. From an empty history, two calls made one after the other on a path that resolves,
  both answered with an ok status, a parsed body and no error, give a history of four
  entries: a human message carrying the first text, an ai message carrying the first
  answer, a human message carrying the second text, an ai message carrying the second
  answer, in that order. The states \<open>a\<close> and \<open>c\<close> are those in which the requests are
  in flight: each already holds the human message of its call and not yet the answer;
  \<open>b\<close> and \<open>d\<close> are the states once the calls have settled, and each state's history
  extends the one before it.
\<close>

theorem sendMessage_twice_in_order:
  assumes "messages s = []"
    and "getChatParams pathname = Some chatParams"
    and "ok r1" and "json r1 = Inr data1" and "\<not> truthy (resp_error data1)"
    and "ok r2" and "json r2 = Inr data2" and "\<not> truthy (resp_error data2)"
    and "a = sendMessage_request chatParams text1 t1 s"
    and "b = sendMessage_response seen1 t2 (Resolved r1) a"
    and "c = sendMessage_request chatParams text2 t3 b"
    and "d = sendMessage_response seen2 t4 (Resolved r2) c"
  shows "b = sendMessage pathname seen1 text1 t1 t2 (Resolved r1) s
     \<and> d = sendMessage pathname seen2 text2 t3 t4 (Resolved r2) b
     \<and> messages a =
         [\<lparr>msg_id = ''human-'' @ toString t1, msg_type = Human, content = [Text text1]\<rparr>]
     \<and> messages b =
         [\<lparr>msg_id = ''human-'' @ toString t1, msg_type = Human, content = [Text text1]\<rparr>,
          \<lparr>msg_id = ''ai-'' @ toString t2, msg_type = Ai, content = [Text (answer data1)]\<rparr>]
     \<and> messages c =
         [\<lparr>msg_id = ''human-'' @ toString t1, msg_type = Human, content = [Text text1]\<rparr>,
          \<lparr>msg_id = ''ai-'' @ toString t2, msg_type = Ai, content = [Text (answer data1)]\<rparr>,
          \<lparr>msg_id = ''human-'' @ toString t3, msg_type = Human, content = [Text text2]\<rparr>]
     \<and> messages d =
         [\<lparr>msg_id = ''human-'' @ toString t1, msg_type = Human, content = [Text text1]\<rparr>,
          \<lparr>msg_id = ''ai-'' @ toString t2, msg_type = Ai, content = [Text (answer data1)]\<rparr>,
          \<lparr>msg_id = ''human-'' @ toString t3, msg_type = Human, content = [Text text2]\<rparr>,
          \<lparr>msg_id = ''ai-'' @ toString t4, msg_type = Ai, content = [Text (answer data2)]\<rparr>]
     \<and> map msg_type (messages d) = [Human, Ai, Human, Ai]
     \<and> map content (messages d) =
         [[Text text1], [Text (answer data1)], [Text text2], [Text (answer data2)]]"
proof -
  have ma: "messages a = [humanMessage text1 t1]"
    using assms(1,9) by (simp add: sendMessage_request_messages)
  have mb: "messages b = messages a @ [aiMessage (answer data1) t2]"
    using assms(10) sendMessage_response_success [OF assms(3,4,5)] by simp
  have mc: "messages c = messages b @ [humanMessage text2 t3]"
    using assms(11) by (simp add: sendMessage_request_messages)
  have md: "messages d = messages c @ [aiMessage (answer data2) t4]"
    using assms(12) sendMessage_response_success [OF assms(6,7,8)] by simp
  have sb: "b = sendMessage pathname seen1 text1 t1 t2 (Resolved r1) s"
    using assms(2,9,10) by (simp add: sendMessage_def)
  have sd: "d = sendMessage pathname seen2 text2 t3 t4 (Resolved r2) b"
    using assms(2,11,12) by (simp add: sendMessage_def)
  from ma mb mc md sb sd show ?thesis
    by (simp add: humanMessage_def aiMessage_def)
qed

theorem sendMessage_twice_in_order_witness:
  "messages (sendMessage ''/chat/abc/123'' None ''Second?'' 3 4
      (Resolved \<lparr>ok = True, statusText = ''OK'',
         json = Inr \<lparr>answer = ''Two.'', sources = [''spec.pdf''], processing_steps = [],
                     resp_error = None\<rparr>\<rparr>)
      (sendMessage ''/chat/abc/123'' None ''First?'' 1 2
        (Resolved \<lparr>ok = True, statusText = ''OK'',
           json = Inr \<lparr>answer = ''One.'', sources = [''spec.pdf''], processing_steps = [],
                       resp_error = None\<rparr>\<rparr>)
        useCustomChat_initial))
   = [\<lparr>msg_id = ''human-1'', msg_type = Human, content = [Text ''First?'']\<rparr>,
      \<lparr>msg_id = ''ai-2'', msg_type = Ai, content = [Text ''One.'']\<rparr>,
      \<lparr>msg_id = ''human-3'', msg_type = Human, content = [Text ''Second?'']\<rparr>,
      \<lparr>msg_id = ''ai-4'', msg_type = Ai, content = [Text ''Two.'']\<rparr>]"
proof -
  let ?d1 = "\<lparr>answer = ''One.'', sources = [''spec.pdf''], processing_steps = [],
               resp_error = None\<rparr>"
  let ?d2 = "\<lparr>answer = ''Two.'', sources = [''spec.pdf''], processing_steps = [],
               resp_error = None\<rparr>"
  let ?r1 = "\<lparr>ok = True, statusText = ''OK'', json = Inr ?d1\<rparr>"
  let ?r2 = "\<lparr>ok = True, statusText = ''OK'', json = Inr ?d2\<rparr>"
  let ?cp = "\<lparr>user_hash = ''abc'', project_id = ''123''\<rparr>"
  let ?a = "sendMessage_request ?cp ''First?'' 1 useCustomChat_initial"
  let ?b = "sendMessage_response None 2 (Resolved ?r1) ?a"
  let ?c = "sendMessage_request ?cp ''Second?'' 3 ?b"
  let ?d = "sendMessage_response None 4 (Resolved ?r2) ?c"
  have e: "messages useCustomChat_initial = []"
    by (simp add: useCustomChat_initial_def)
  have t1: "\<not> truthy (resp_error ?d1)" and t2: "\<not> truthy (resp_error ?d2)"
    by (simp_all add: truthy_def)
  have "ok ?r1" and "json ?r1 = Inr ?d1" and "ok ?r2" and "json ?r2 = Inr ?d2"
    by simp_all
  note th = sendMessage_twice_in_order
    [OF e getChatParams_abc_123 \<open>ok ?r1\<close> \<open>json ?r1 = Inr ?d1\<close> t1
        \<open>ok ?r2\<close> \<open>json ?r2 = Inr ?d2\<close> t2,
     of ?a "''First?''" 1 ?b None 2 ?c "''Second?''" 3 ?d None 4, OF refl refl refl refl]
  have b: "?b = sendMessage ''/chat/abc/123'' None ''First?'' 1 2 (Resolved ?r1)
                  useCustomChat_initial"
    by (rule th [THEN conjunct1])
  have d: "?d = sendMessage ''/chat/abc/123'' None ''Second?'' 3 4 (Resolved ?r2) ?b"
    by (rule th [THEN conjunct2, THEN conjunct1])
  have m: "messages ?d =
      [\<lparr>msg_id = ''human-1'', msg_type = Human, content = [Text ''First?'']\<rparr>,
       \<lparr>msg_id = ''ai-2'', msg_type = Ai, content = [Text ''One.'']\<rparr>,
       \<lparr>msg_id = ''human-3'', msg_type = Human, content = [Text ''Second?'']\<rparr>,
       \<lparr>msg_id = ''ai-4'', msg_type = Ai, content = [Text ''Two.'']\<rparr>]"
    using th [THEN conjunct2, THEN conjunct2, THEN conjunct2, THEN conjunct2, THEN conjunct2,
              THEN conjunct1]
    by (simp only: chat_response.simps toString_digits append.simps)
  show ?thesis
    unfolding b [symmetric] d [symmetric] by (rule m)
qed

subsection \<open>The document name\<close>

text \<open>
  C7. The claim is that the document name, once set, is never overwritten. The
  \<open>sendMessage\<close> function of an activation tests the \<open>documentName\<close> of the render that
  created it, which is \<open>null\<close>, so the guard \<open>!documentName\<close> always passes. On
  \<open>/chat/u1/p1\<close>, after the metadata has set the name to \<open>spec.pdf\<close>, a successful
  answer with sources \<open>[other.pdf]\<close> replaces it by \<open>other.pdf\<close>.
\<close>

theorem documentName_overwritten:
  "documentName
     (loadProjectInfo ''/chat/u1/p1''
        (Resolved \<lparr>ok = True, statusText = ''OK'',
           json = Inr \<lparr>info_project_id = ''p1'', info_project_name = ''spec'',
                       description = None, document_count = 1, total_chunks = 12,
                       created_at = ''2025-01-01'', document_names = [''spec.pdf'']\<rparr>\<rparr>)
        useCustomChat_initial) = Some ''spec.pdf''
   \<and> documentName
     (activation_sendMessage ''/chat/u1/p1'' ''What is this about?'' 1 2
        (Resolved \<lparr>ok = True, statusText = ''OK'',
           json = Inr \<lparr>answer = ''A summary.'', sources = [''other.pdf''],
                       processing_steps = [], resp_error = None\<rparr>\<rparr>)
        (loadProjectInfo ''/chat/u1/p1''
          (Resolved \<lparr>ok = True, statusText = ''OK'',
             json = Inr \<lparr>info_project_id = ''p1'', info_project_name = ''spec'',
                         description = None, document_count = 1, total_chunks = 12,
                         created_at = ''2025-01-01'', document_names = [''spec.pdf'']\<rparr>\<rparr>)
          useCustomChat_initial)) = Some ''other.pdf''"
proof -
  have p: "getChatParams ''/chat/u1/p1'' = Some \<lparr>user_hash = ''u1'', project_id = ''p1''\<rparr>"
    by (simp add: getChatParams_def)
  show ?thesis
    by (simp add: p loadProjectInfo_def activation_sendMessage_def sendMessage_def
          sendMessage_response_def sendMessage_request_def sendMessage_try_def truthy_def
          useCustomChat_initial_def Let_def)
qed

end
